theory Spec2Isabelle
  imports Main "HOL-Library.Sublist"
begin

section \<open>Mark utilities of cord.js: validation, compression, schema check\<close>

text \<open>
  The source is \<^verbatim>\<open>packages/modules/src/mark/Mark.utils.ts\<close>. It exports four
  functions: \<^verbatim>\<open>errorCheck\<close>, \<^verbatim>\<open>compress\<close>, \<^verbatim>\<open>decompress\<close> and
  \<^verbatim>\<open>verifyStructure\<close>. Each of them is straight-line code over JavaScript values which
  calls into sibling modules (\<^verbatim>\<open>StreamUtils\<close>, \<^verbatim>\<open>MarkContentUtils\<close>, \<^verbatim>\<open>Mark\<close>,
  \<^verbatim>\<open>SchemaUtils\<close>) and signals failure by \<^verbatim>\<open>throw\<close>.
\<close>

subsection \<open>JavaScript values\<close>

text \<open>
  The functions test their arguments at run time (\<^verbatim>\<open>if (input.content)\<close>,
  \<^verbatim>\<open>Array.isArray(stream)\<close>), so the fields of a Mark and the argument of
  \<^verbatim>\<open>decompress\<close> are arbitrary JavaScript values, whatever the TypeScript annotations
  say. Numbers are the integral ones together with \<^verbatim>\<open>NaN\<close>; an object is the list of
  its own properties, the first binding of a key being the one that is read.
\<close>

datatype jsval =
    JUndefined
  | JNull
  | JBool bool
  | JNum int
  | JNaN
  | JStr string
  | JArr "jsval list"
  | JObj "(string \<times> jsval) list"

text \<open>
  \<^verbatim>\<open>ToBoolean\<close>, the conversion behind \<^verbatim>\<open>if (v)\<close> and \<^verbatim>\<open>!v\<close>: the falsy values are
  \<^verbatim>\<open>undefined\<close>, \<^verbatim>\<open>null\<close>, \<^verbatim>\<open>false\<close>, \<^verbatim>\<open>0\<close>, \<^verbatim>\<open>NaN\<close> and the empty string;
  every array and every object is truthy.
\<close>

fun truthy :: "jsval \<Rightarrow> bool" where
  "truthy JUndefined = False"
| "truthy JNull = False"
| "truthy (JBool b) = b"
| "truthy (JNum n) = (n \<noteq> 0)"
| "truthy JNaN = False"
| "truthy (JStr s) = (s \<noteq> [])"
| "truthy (JArr xs) = True"
| "truthy (JObj fs) = True"

text \<open>\<^verbatim>\<open>Array.isArray(v)\<close>, \<^verbatim>\<open>v.length\<close> of an array and \<^verbatim>\<open>v[i]\<close>, which is
  \<^verbatim>\<open>undefined\<close> beyond the end of the array.\<close>

fun Array_isArray :: "jsval \<Rightarrow> bool" where
  "Array_isArray (JArr xs) = True"
| "Array_isArray v = False"

fun elements :: "jsval \<Rightarrow> jsval list" where
  "elements (JArr xs) = xs"
| "elements v = []"

definition array_length :: "jsval \<Rightarrow> nat" where
  "array_length v = length (elements v)"

definition element :: "jsval \<Rightarrow> nat \<Rightarrow> jsval" where
  "element v i = (if i < array_length v then elements v ! i else JUndefined)"

subsection \<open>Errors\<close>

text \<open>
  The four \<^verbatim>\<open>SDKErrors\<close> classes the source instantiates, the \<^verbatim>\<open>TypeError\<close> that a
  property read on \<^verbatim>\<open>undefined\<close> or \<^verbatim>\<open>null\<close> raises, and \<open>Thrown\<close> for whatever
  else a sibling module throws. A computation that may throw returns \<open>Inl\<close> of the
  error or \<open>Inr\<close> of its value.
\<close>

datatype error =
    ERROR_CONTENT_NOT_PROVIDED
  | ERROR_MC_NOT_PROVIDED
  | ERROR_CONTENT_UNVERIFIABLE
  | ERROR_DECOMPRESSION_ARRAY string
  | TypeError
  | Thrown string

text \<open>Sequencing of two statements: the second runs only if the first did not throw.\<close>

definition andThen :: "error + 'a \<Rightarrow> ('a \<Rightarrow> error + 'b) \<Rightarrow> error + 'b" where
  "andThen r f = (case r of Inl e \<Rightarrow> Inl e | Inr x \<Rightarrow> f x)"

text \<open>
  The property read \<^verbatim>\<open>v.k\<close>. The keys the source reads this way (\<^verbatim>\<open>content\<close>,
  \<^verbatim>\<open>contents\<close>) are defined on no built-in prototype, so on a primitive or an array
  the read yields \<^verbatim>\<open>undefined\<close>.
\<close>

fun get_prop :: "jsval \<Rightarrow> string \<Rightarrow> error + jsval" where
  "get_prop JUndefined k = Inl TypeError"
| "get_prop JNull k = Inl TypeError"
| "get_prop (JObj fs) k = Inr (case map_of fs k of None \<Rightarrow> JUndefined | Some v \<Rightarrow> v)"
| "get_prop v k = Inr JUndefined"

subsection \<open>The data model\<close>

text \<open>
  The types \<^verbatim>\<open>IMark\<close>, \<^verbatim>\<open>ISchema\<close> and \<^verbatim>\<open>CompressedMark\<close> are imported from the
  package \<^verbatim>\<open>@cord.network/types\<close>; the records below have the fields that
  \<^verbatim>\<open>Mark.utils.ts\<close> reads and writes. \<^verbatim>\<open>IMark\<close> has the two fields \<^verbatim>\<open>request\<close> and
  \<^verbatim>\<open>content\<close>; a field that is absent reads as \<^verbatim>\<open>undefined\<close>. Of \<^verbatim>\<open>ISchema\<close> the
  source reads the field \<^verbatim>\<open>schema\<close> only. The Mark and the schema handed to a function
  are objects, as their types say; what their fields hold is not constrained. A
  \<^verbatim>\<open>CompressedMark\<close> is tested with \<^verbatim>\<open>Array.isArray\<close> before use, so it is any value.
\<close>

record IMark =
  request :: jsval
  content :: jsval

record ISchema =
  schema :: jsval

subsection \<open>The sibling modules\<close>

text \<open>
  The functions of the sibling modules that \<^verbatim>\<open>Mark.utils.ts\<close> calls are parameters of
  the model. Each of them may return or throw.
\<close>

record externals =
  StreamUtils_errorCheck :: "jsval \<Rightarrow> error + unit"
  StreamUtils_compress :: "jsval \<Rightarrow> error + jsval"
  StreamUtils_decompress :: "jsval \<Rightarrow> error + jsval"
  MarkContentUtils_errorCheck :: "jsval \<Rightarrow> error + unit"
  MarkContentUtils_compress :: "jsval \<Rightarrow> error + jsval"
  MarkContentUtils_decompress :: "jsval \<Rightarrow> error + jsval"
  Mark_verifyData :: "IMark \<Rightarrow> error + bool"
  SchemaUtils_verifyContentProperties :: "jsval \<Rightarrow> jsval \<Rightarrow> error + bool"

subsection \<open>The four functions of \<^verbatim>\<open>Mark.utils.ts\<close>\<close>

definition errorCheck :: "externals \<Rightarrow> IMark \<Rightarrow> error + unit" where
  "errorCheck ext input =
     andThen (if truthy (content input)
              then StreamUtils_errorCheck ext (content input)
              else Inl ERROR_CONTENT_NOT_PROVIDED)
       (\<lambda>_. andThen (if truthy (request input)
                     then MarkContentUtils_errorCheck ext (request input)
                     else Inl ERROR_MC_NOT_PROVIDED)
         (\<lambda>_. andThen (Mark_verifyData ext input)
           (\<lambda>ok. if \<not> ok then Inl ERROR_CONTENT_UNVERIFIABLE else Inr ())))"

definition compress :: "externals \<Rightarrow> IMark \<Rightarrow> error + jsval" where
  "compress ext stream =
     andThen (errorCheck ext stream)
       (\<lambda>_. andThen (MarkContentUtils_compress ext (request stream))
         (\<lambda>a. andThen (StreamUtils_compress ext (content stream))
           (\<lambda>b. Inr (JArr [a, b]))))"

definition decompress :: "externals \<Rightarrow> jsval \<Rightarrow> error + IMark" where
  "decompress ext stream =
     (if \<not> Array_isArray stream \<or> array_length stream \<noteq> 2
      then Inl (ERROR_DECOMPRESSION_ARRAY ''Cord Mark'')
      else andThen (MarkContentUtils_decompress ext (element stream 0))
             (\<lambda>r. andThen (StreamUtils_decompress ext (element stream 1))
               (\<lambda>c. Inr \<lparr>request = r, content = c\<rparr>)))"

definition verifyStructure :: "externals \<Rightarrow> IMark \<Rightarrow> ISchema \<Rightarrow> error + bool" where
  "verifyStructure ext mark sch =
     andThen (errorCheck ext mark)
       (\<lambda>_. andThen (get_prop (request mark) ''content'')
         (\<lambda>rc. andThen (get_prop rc ''contents'')
           (\<lambda>cs. SchemaUtils_verifyContentProperties ext cs (schema sch))))"

subsection \<open>Sibling modules with effects\<close>

text \<open>
  \<^verbatim>\<open>Mark.utils.ts\<close> itself assigns to nothing: it has no assignment, no property write
  and no \<^verbatim>\<open>delete\<close>, and its only effect is \<^verbatim>\<open>throw\<close>. Whether a call changes
  anything is therefore decided by the sibling modules. To tell which of their functions
  a call runs, the four functions are given a second time with a world \<open>'w\<close> threaded
  through every call into a sibling module, in the order in which the source makes the
  calls: the world stands for all the state that such a call could read or write. A
  statement that throws leaves the world as the calls before it left it.
\<close>

type_synonym ('w, 'a) effect = "'w \<Rightarrow> (error + 'a) \<times> 'w"

definition returnE :: "'a \<Rightarrow> ('w, 'a) effect" where
  "returnE x w = (Inr x, w)"

definition throwE :: "error \<Rightarrow> ('w, 'a) effect" where
  "throwE e w = (Inl e, w)"

definition pureE :: "error + 'a \<Rightarrow> ('w, 'a) effect" where
  "pureE r w = (r, w)"

definition andThenE :: "('w, 'a) effect \<Rightarrow> ('a \<Rightarrow> ('w, 'b) effect) \<Rightarrow> ('w, 'b) effect" where
  "andThenE m f w = (case m w of (Inl e, w') \<Rightarrow> (Inl e, w') | (Inr x, w') \<Rightarrow> f x w')"

record 'w externals_w =
  StreamUtils_errorCheck_w :: "jsval \<Rightarrow> ('w, unit) effect"
  StreamUtils_compress_w :: "jsval \<Rightarrow> ('w, jsval) effect"
  StreamUtils_decompress_w :: "jsval \<Rightarrow> ('w, jsval) effect"
  MarkContentUtils_errorCheck_w :: "jsval \<Rightarrow> ('w, unit) effect"
  MarkContentUtils_compress_w :: "jsval \<Rightarrow> ('w, jsval) effect"
  MarkContentUtils_decompress_w :: "jsval \<Rightarrow> ('w, jsval) effect"
  Mark_verifyData_w :: "IMark \<Rightarrow> ('w, bool) effect"
  SchemaUtils_verifyContentProperties_w :: "jsval \<Rightarrow> jsval \<Rightarrow> ('w, bool) effect"

definition errorCheck_w :: "'w externals_w \<Rightarrow> IMark \<Rightarrow> ('w, unit) effect" where
  "errorCheck_w X input =
     andThenE (if truthy (content input)
               then StreamUtils_errorCheck_w X (content input)
               else throwE ERROR_CONTENT_NOT_PROVIDED)
       (\<lambda>_. andThenE (if truthy (request input)
                      then MarkContentUtils_errorCheck_w X (request input)
                      else throwE ERROR_MC_NOT_PROVIDED)
         (\<lambda>_. andThenE (Mark_verifyData_w X input)
           (\<lambda>ok. if \<not> ok then throwE ERROR_CONTENT_UNVERIFIABLE else returnE ())))"

definition compress_w :: "'w externals_w \<Rightarrow> IMark \<Rightarrow> ('w, jsval) effect" where
  "compress_w X stream =
     andThenE (errorCheck_w X stream)
       (\<lambda>_. andThenE (MarkContentUtils_compress_w X (request stream))
         (\<lambda>a. andThenE (StreamUtils_compress_w X (content stream))
           (\<lambda>b. returnE (JArr [a, b]))))"

definition decompress_w :: "'w externals_w \<Rightarrow> jsval \<Rightarrow> ('w, IMark) effect" where
  "decompress_w X stream =
     (if \<not> Array_isArray stream \<or> array_length stream \<noteq> 2
      then throwE (ERROR_DECOMPRESSION_ARRAY ''Cord Mark'')
      else andThenE (MarkContentUtils_decompress_w X (element stream 0))
             (\<lambda>r. andThenE (StreamUtils_decompress_w X (element stream 1))
               (\<lambda>c. returnE \<lparr>request = r, content = c\<rparr>)))"

definition verifyStructure_w :: "'w externals_w \<Rightarrow> IMark \<Rightarrow> ISchema \<Rightarrow> ('w, bool) effect" where
  "verifyStructure_w X mark sch =
     andThenE (errorCheck_w X mark)
       (\<lambda>_. andThenE (pureE (get_prop (request mark) ''content''))
         (\<lambda>rc. andThenE (pureE (get_prop rc ''contents''))
           (\<lambda>cs. SchemaUtils_verifyContentProperties_w X cs (schema sch))))"

text \<open>Sibling modules without effects, seen as sibling modules that ignore the world.\<close>

definition embed :: "externals \<Rightarrow> 'w externals_w" where
  "embed ext =
     \<lparr> StreamUtils_errorCheck_w = (\<lambda>v. pureE (StreamUtils_errorCheck ext v)),
       StreamUtils_compress_w = (\<lambda>v. pureE (StreamUtils_compress ext v)),
       StreamUtils_decompress_w = (\<lambda>v. pureE (StreamUtils_decompress ext v)),
       MarkContentUtils_errorCheck_w = (\<lambda>v. pureE (MarkContentUtils_errorCheck ext v)),
       MarkContentUtils_compress_w = (\<lambda>v. pureE (MarkContentUtils_compress ext v)),
       MarkContentUtils_decompress_w = (\<lambda>v. pureE (MarkContentUtils_decompress ext v)),
       Mark_verifyData_w = (\<lambda>m. pureE (Mark_verifyData ext m)),
       SchemaUtils_verifyContentProperties_w =
         (\<lambda>cs sc. pureE (SchemaUtils_verifyContentProperties ext cs sc)) \<rparr>"

subsection \<open>A sample set of sibling modules\<close>

text \<open>
  A concrete choice of the sibling modules, to run the four functions on concrete
  Marks. Both validators accept objects and reject every other value; both encoders wrap
  their argument in a one-element array and both decoders undo that, rejecting every
  other shape; \<^verbatim>\<open>verifyData\<close> compares the request's \<^verbatim>\<open>rootHash\<close> with the content's
  \<^verbatim>\<open>streamHash\<close>; the schema matcher compares the contents with the schema.
\<close>

fun sample_errorCheck :: "string \<Rightarrow> jsval \<Rightarrow> error + unit" where
  "sample_errorCheck who (JObj fs) = Inr ()"
| "sample_errorCheck who v = Inl (Thrown who)"

fun sample_compress :: "jsval \<Rightarrow> error + jsval" where
  "sample_compress v = Inr (JArr [v])"

fun sample_decompress :: "string \<Rightarrow> jsval \<Rightarrow> error + jsval" where
  "sample_decompress who (JArr [v]) = Inr v"
| "sample_decompress who v = Inl (ERROR_DECOMPRESSION_ARRAY who)"

definition sample_verifyData :: "IMark \<Rightarrow> error + bool" where
  "sample_verifyData m =
     andThen (get_prop (request m) ''rootHash'')
       (\<lambda>h. andThen (get_prop (content m) ''streamHash'') (\<lambda>h'. Inr (h = h')))"

definition sample_ext :: externals where
  "sample_ext =
     \<lparr> StreamUtils_errorCheck = sample_errorCheck ''Stream'',
       StreamUtils_compress = sample_compress,
       StreamUtils_decompress = sample_decompress ''Stream'',
       MarkContentUtils_errorCheck = sample_errorCheck ''Content Stream'',
       MarkContentUtils_compress = sample_compress,
       MarkContentUtils_decompress = sample_decompress ''Content Stream'',
       Mark_verifyData = sample_verifyData,
       SchemaUtils_verifyContentProperties = (\<lambda>cs sc. Inr (cs = sc)) \<rparr>"

text \<open>A well-formed Mark for these modules, and its request and content.\<close>

definition sample_request :: jsval where
  "sample_request =
     JObj [(''content'', JObj [(''contents'', JObj [(''name'', JStr ''Alice'')])]),
           (''rootHash'', JStr ''0xabc'')]"

definition sample_content :: jsval where
  "sample_content = JObj [(''streamHash'', JStr ''0xabc'')]"

definition sample_mark :: IMark where
  "sample_mark = \<lparr>request = sample_request, content = sample_content\<rparr>"

text \<open>
  The same modules with an effect: the world is a counter, and every call into a sibling
  module adds one to it. The counter after a run is the number of such calls made.
\<close>

definition counted :: "error + 'a \<Rightarrow> (nat, 'a) effect" where
  "counted r n = (r, Suc n)"

definition counting_ext :: "nat externals_w" where
  "counting_ext =
     \<lparr> StreamUtils_errorCheck_w = (\<lambda>v. counted (StreamUtils_errorCheck sample_ext v)),
       StreamUtils_compress_w = (\<lambda>v. counted (StreamUtils_compress sample_ext v)),
       StreamUtils_decompress_w = (\<lambda>v. counted (StreamUtils_decompress sample_ext v)),
       MarkContentUtils_errorCheck_w = (\<lambda>v. counted (MarkContentUtils_errorCheck sample_ext v)),
       MarkContentUtils_compress_w = (\<lambda>v. counted (MarkContentUtils_compress sample_ext v)),
       MarkContentUtils_decompress_w = (\<lambda>v. counted (MarkContentUtils_decompress sample_ext v)),
       Mark_verifyData_w = (\<lambda>m. counted (Mark_verifyData sample_ext m)),
       SchemaUtils_verifyContentProperties_w =
         (\<lambda>cs sc. counted (SchemaUtils_verifyContentProperties sample_ext cs sc)) \<rparr>"

section \<open>Properties\<close>

subsection \<open>Auxiliary facts\<close>

lemma andThen_Inl [simp]: "andThen (Inl e) f = Inl e"
  by (simp add: andThen_def)

lemma andThen_Inr [simp]: "andThen (Inr x) f = f x"
  by (simp add: andThen_def)

lemma Array_isArray_iff: "Array_isArray v \<longleftrightarrow> (\<exists>xs. v = JArr xs)"
  by (cases v) simp_all

lemmas sample_defs =
  sample_ext_def sample_mark_def sample_request_def sample_content_def sample_verifyData_def

lemmas counting_defs =
  counting_ext_def counted_def andThenE_def returnE_def throwE_def pureE_def

lemma sample_mark_valid: "errorCheck sample_ext sample_mark = Inr ()"
  by (simp add: errorCheck_def sample_defs)

text \<open>
  On sibling modules without effects the functions with a world compute what the
  functions without one compute, and hand the world back.
\<close>

lemma andThenE_pureE [simp]:
  "andThenE (pureE r) f = (case r of Inl e \<Rightarrow> throwE e | Inr x \<Rightarrow> f x)"
  by (rule ext) (simp add: andThenE_def pureE_def throwE_def split: sum.splits)

lemma throwE_eq_pureE: "throwE e = pureE (Inl e)"
  by (rule ext) (simp add: pureE_def throwE_def)

lemma returnE_eq_pureE: "returnE x = pureE (Inr x)"
  by (rule ext) (simp add: pureE_def returnE_def)

lemma errorCheck_w_embed: "errorCheck_w (embed ext) input = pureE (errorCheck ext input)"
  by (simp add: errorCheck_w_def errorCheck_def embed_def andThen_def
      throwE_eq_pureE returnE_eq_pureE split: sum.splits)

lemma compress_w_embed: "compress_w (embed ext) stream = pureE (compress ext stream)"
  by (simp add: compress_w_def compress_def errorCheck_w_embed andThen_def
      throwE_eq_pureE returnE_eq_pureE split: sum.splits)
    (simp add: embed_def throwE_eq_pureE returnE_eq_pureE split: sum.splits)

lemma decompress_w_embed: "decompress_w (embed ext) stream = pureE (decompress ext stream)"
  by (simp add: decompress_w_def decompress_def embed_def andThen_def
      throwE_eq_pureE returnE_eq_pureE split: sum.splits)

lemma verifyStructure_w_embed:
  "verifyStructure_w (embed ext) mark sch = pureE (verifyStructure ext mark sch)"
  by (simp add: verifyStructure_w_def verifyStructure_def errorCheck_w_embed andThen_def
      throwE_eq_pureE split: sum.splits)
    (simp add: embed_def)

text \<open>
  With sibling modules that have an effect the functions have one too: validating the
  sample Mark with the counting modules makes three calls.
\<close>

lemma errorCheck_w_counting: "errorCheck_w counting_ext sample_mark 0 = (Inr (), 3)"
  by (simp add: errorCheck_w_def counting_defs sample_defs)




subsection \<open>The round trip\<close>

text \<open>
  C1. Let \<open>m\<close> be a valid Mark, one on which \<^verbatim>\<open>errorCheck\<close> completes, and let the request
  codec and the content codec satisfy their round-trip law at the request and at the
  content of \<open>m\<close>: decoding what the encoder returns gives the value back. Then
  \<^verbatim>\<open>decompress(compress(m))\<close> returns a Mark with the request and the content of \<open>m\<close>,
  which is \<open>m\<close> itself.
\<close>

theorem compress_decompress_roundtrip:
  assumes valid: "errorCheck ext m = Inr ()"
    and req: "andThen (MarkContentUtils_compress ext (request m)) (MarkContentUtils_decompress ext)
              = Inr (request m)"
    and con: "andThen (StreamUtils_compress ext (content m)) (StreamUtils_decompress ext)
              = Inr (content m)"
  shows "andThen (compress ext m) (decompress ext) = Inr m"
proof -
  from req obtain a where a: "MarkContentUtils_compress ext (request m) = Inr a"
    and a': "MarkContentUtils_decompress ext a = Inr (request m)"
    by (auto simp: andThen_def split: sum.splits)
  from con obtain b where b: "StreamUtils_compress ext (content m) = Inr b"
    and b': "StreamUtils_decompress ext b = Inr (content m)"
    by (auto simp: andThen_def split: sum.splits)
  have "compress ext m = Inr (JArr [a, b])"
    using valid a b by (simp add: compress_def)
  moreover have "decompress ext (JArr [a, b]) = Inr \<lparr>request = request m, content = content m\<rparr>"
    using a' b' by (simp add: decompress_def array_length_def element_def)
  ultimately show ?thesis by simp
qed

theorem compress_decompress_roundtrip_witness:
  "errorCheck sample_ext sample_mark = Inr ()
   \<and> andThen (compress sample_ext sample_mark) (decompress sample_ext) = Inr sample_mark"
proof -
  have v: "errorCheck sample_ext sample_mark = Inr ()"
    by (rule sample_mark_valid)
  have r: "andThen (MarkContentUtils_compress sample_ext (request sample_mark))
             (MarkContentUtils_decompress sample_ext) = Inr (request sample_mark)"
    by (simp add: sample_ext_def)
  have c: "andThen (StreamUtils_compress sample_ext (content sample_mark))
             (StreamUtils_decompress sample_ext) = Inr (content sample_mark)"
    by (simp add: sample_ext_def)
  show ?thesis
    using v compress_decompress_roundtrip [OF v r c] by simp
qed

subsection \<open>Validation\<close>

text \<open>
  C2. \<^verbatim>\<open>errorCheck\<close> completes exactly when \<^verbatim>\<open>content\<close> is present and the content-stream
  validator accepts it, \<^verbatim>\<open>request\<close> is present and the request validator accepts it, and
  \<^verbatim>\<open>verifyData\<close> returns \<^verbatim>\<open>true\<close>. Otherwise the first check that fails, in this order,
  decides the error: \<^verbatim>\<open>ERROR_CONTENT_NOT_PROVIDED\<close>, the error of the content validator
  unchanged, \<^verbatim>\<open>ERROR_MC_NOT_PROVIDED\<close>, the error of the request validator unchanged,
  \<^verbatim>\<open>ERROR_CONTENT_UNVERIFIABLE\<close> when \<^verbatim>\<open>verifyData\<close> returns \<^verbatim>\<open>false\<close>. (The last line
  of the theorem adds the case in which \<^verbatim>\<open>verifyData\<close> itself throws.) A later check has
  no say once an earlier one has failed: the premises of each line constrain the earlier
  checks only.
\<close>

theorem errorCheck_outcomes:
  "(errorCheck ext input = Inr () \<longleftrightarrow>
      truthy (content input) \<and> StreamUtils_errorCheck ext (content input) = Inr ()
      \<and> truthy (request input) \<and> MarkContentUtils_errorCheck ext (request input) = Inr ()
      \<and> Mark_verifyData ext input = Inr True)
   \<and> (\<not> truthy (content input) \<longrightarrow>
        errorCheck ext input = Inl ERROR_CONTENT_NOT_PROVIDED)
   \<and> (truthy (content input) \<and> StreamUtils_errorCheck ext (content input) = Inl ec \<longrightarrow>
        errorCheck ext input = Inl ec)
   \<and> (truthy (content input) \<and> StreamUtils_errorCheck ext (content input) = Inr ()
        \<and> \<not> truthy (request input) \<longrightarrow>
        errorCheck ext input = Inl ERROR_MC_NOT_PROVIDED)
   \<and> (truthy (content input) \<and> StreamUtils_errorCheck ext (content input) = Inr ()
        \<and> truthy (request input) \<and> MarkContentUtils_errorCheck ext (request input) = Inl er \<longrightarrow>
        errorCheck ext input = Inl er)
   \<and> (truthy (content input) \<and> StreamUtils_errorCheck ext (content input) = Inr ()
        \<and> truthy (request input) \<and> MarkContentUtils_errorCheck ext (request input) = Inr ()
        \<and> Mark_verifyData ext input = Inr False \<longrightarrow>
        errorCheck ext input = Inl ERROR_CONTENT_UNVERIFIABLE)
   \<and> (truthy (content input) \<and> StreamUtils_errorCheck ext (content input) = Inr ()
        \<and> truthy (request input) \<and> MarkContentUtils_errorCheck ext (request input) = Inr ()
        \<and> Mark_verifyData ext input = Inl ev \<longrightarrow>
        errorCheck ext input = Inl ev)"
  by (auto simp: errorCheck_def andThen_def split: sum.splits if_splits)

theorem errorCheck_outcomes_witness:
  "errorCheck sample_ext \<lparr>request = sample_request, content = sample_content\<rparr> = Inr ()
   \<and> errorCheck sample_ext \<lparr>request = JNum 7, content = JNull\<rparr>
       = Inl ERROR_CONTENT_NOT_PROVIDED
   \<and> errorCheck sample_ext \<lparr>request = JNull, content = JStr ''stream''\<rparr>
       = Inl (Thrown ''Stream'')
   \<and> errorCheck sample_ext \<lparr>request = JStr [], content = sample_content\<rparr>
       = Inl ERROR_MC_NOT_PROVIDED
   \<and> errorCheck sample_ext \<lparr>request = JArr [], content = sample_content\<rparr>
       = Inl (Thrown ''Content Stream'')
   \<and> errorCheck sample_ext \<lparr>request = JObj [(''rootHash'', JStr ''0xdef'')],
                              content = sample_content\<rparr>
       = Inl ERROR_CONTENT_UNVERIFIABLE
   \<and> errorCheck (sample_ext\<lparr>Mark_verifyData := \<lambda>m. Inl (Thrown ''verifyData'')\<rparr>)
        \<lparr>request = sample_request, content = sample_content\<rparr>
       = Inl (Thrown ''verifyData'')"
proof -
  note defs = sample_ext_def sample_request_def sample_content_def sample_verifyData_def
  have r1: "errorCheck sample_ext \<lparr>request = sample_request, content = sample_content\<rparr>
            = Inr ()"
    using errorCheck_outcomes [where ext = sample_ext
        and input = "\<lparr>request = sample_request, content = sample_content\<rparr>"
        and ec = TypeError and er = TypeError and ev = TypeError]
    by (simp add: defs)
  have r2: "errorCheck sample_ext \<lparr>request = JNum 7, content = JNull\<rparr>
            = Inl ERROR_CONTENT_NOT_PROVIDED"
    using errorCheck_outcomes [where ext = sample_ext
        and input = "\<lparr>request = JNum 7, content = JNull\<rparr>"
        and ec = TypeError and er = TypeError and ev = TypeError]
    by (simp add: defs)
  have r3: "errorCheck sample_ext \<lparr>request = JNull, content = JStr ''stream''\<rparr>
            = Inl (Thrown ''Stream'')"
    using errorCheck_outcomes [where ext = sample_ext
        and input = "\<lparr>request = JNull, content = JStr ''stream''\<rparr>"
        and ec = "Thrown ''Stream''" and er = TypeError and ev = TypeError]
    by (simp add: defs)
  have r4: "errorCheck sample_ext \<lparr>request = JStr [], content = sample_content\<rparr>
            = Inl ERROR_MC_NOT_PROVIDED"
    using errorCheck_outcomes [where ext = sample_ext
        and input = "\<lparr>request = JStr [], content = sample_content\<rparr>"
        and ec = TypeError and er = TypeError and ev = TypeError]
    by (simp add: defs)
  have r5: "errorCheck sample_ext \<lparr>request = JArr [], content = sample_content\<rparr>
            = Inl (Thrown ''Content Stream'')"
    using errorCheck_outcomes [where ext = sample_ext
        and input = "\<lparr>request = JArr [], content = sample_content\<rparr>"
        and ec = TypeError and er = "Thrown ''Content Stream''" and ev = TypeError]
    by (simp add: defs)
  have r6: "errorCheck sample_ext \<lparr>request = JObj [(''rootHash'', JStr ''0xdef'')],
                                     content = sample_content\<rparr>
            = Inl ERROR_CONTENT_UNVERIFIABLE"
    using errorCheck_outcomes [where ext = sample_ext
        and input = "\<lparr>request = JObj [(''rootHash'', JStr ''0xdef'')],
                     content = sample_content\<rparr>"
        and ec = TypeError and er = TypeError and ev = TypeError]
    by (simp add: defs)
  have r7: "errorCheck (sample_ext\<lparr>Mark_verifyData := \<lambda>m. Inl (Thrown ''verifyData'')\<rparr>)
              \<lparr>request = sample_request, content = sample_content\<rparr>
            = Inl (Thrown ''verifyData'')"
    using errorCheck_outcomes
        [where ext = "sample_ext\<lparr>Mark_verifyData := \<lambda>m. Inl (Thrown ''verifyData'')\<rparr>"
        and input = "\<lparr>request = sample_request, content = sample_content\<rparr>"
        and ec = TypeError and er = TypeError and ev = "Thrown ''verifyData''"]
    by (simp add: defs)
  from r1 r2 r3 r4 r5 r6 r7 show ?thesis by blast
qed

text \<open>
  C3. A Mark whose \<^verbatim>\<open>content\<close> field is missing makes \<^verbatim>\<open>errorCheck\<close> throw
  \<^verbatim>\<open>ERROR_CONTENT_NOT_PROVIDED\<close>, whatever \<^verbatim>\<open>request\<close> holds and whatever the sibling
  modules would do, also when the request validator and \<^verbatim>\<open>verifyData\<close> throw at every
  argument. Neither is consulted: with sibling modules that have effects the world is
  left as it was found, so no function of theirs has run.
\<close>

theorem errorCheck_content_missing:
  assumes "content input = JUndefined"
  shows "errorCheck ext input = Inl ERROR_CONTENT_NOT_PROVIDED
         \<and> errorCheck_w X input w = (Inl ERROR_CONTENT_NOT_PROVIDED, w)"
  using assms by (simp add: errorCheck_def errorCheck_w_def andThenE_def throwE_def)

theorem errorCheck_content_missing_witness:
  "content \<lparr>request = sample_request, content = JUndefined\<rparr> = JUndefined
   \<and> errorCheck sample_ext \<lparr>request = sample_request, content = JUndefined\<rparr>
       = Inl ERROR_CONTENT_NOT_PROVIDED
   \<and> errorCheck sample_ext \<lparr>request = JNum 7, content = JUndefined\<rparr>
       = Inl ERROR_CONTENT_NOT_PROVIDED
   \<and> errorCheck sample_ext \<lparr>request = JUndefined, content = JUndefined\<rparr>
       = Inl ERROR_CONTENT_NOT_PROVIDED
   \<and> errorCheck_w counting_ext \<lparr>request = sample_request, content = JUndefined\<rparr> 0
       = (Inl ERROR_CONTENT_NOT_PROVIDED, 0)"
proof -
  have valid_request: "content \<lparr>request = sample_request, content = JUndefined\<rparr> = JUndefined"
    and invalid_request: "content \<lparr>request = JNum 7, content = JUndefined\<rparr> = JUndefined"
    and no_request: "content \<lparr>request = JUndefined, content = JUndefined\<rparr> = JUndefined"
    by simp_all
  show ?thesis
    using valid_request
      errorCheck_content_missing [OF valid_request, of sample_ext counting_ext 0]
      errorCheck_content_missing [OF invalid_request, of sample_ext counting_ext 0]
      errorCheck_content_missing [OF no_request, of sample_ext counting_ext 0]
    by simp
qed

subsection \<open>Compression\<close>

text \<open>
  C4, as the code has it. \<^verbatim>\<open>compress\<close> runs \<^verbatim>\<open>errorCheck\<close> first: when \<^verbatim>\<open>errorCheck\<close>
  throws, \<^verbatim>\<open>compress\<close> throws the same error. When \<^verbatim>\<open>errorCheck\<close> passes,
  \<^verbatim>\<open>compress\<close> evaluates \<^verbatim>\<open>[encode(stream.request), encode(stream.content)]\<close>, the
  request first: an error thrown by the request encoder, or by the content encoder after
  the request encoder has returned, is the error of \<^verbatim>\<open>compress\<close>; when the encoders return
  \<open>a\<close> and \<open>b\<close>, \<^verbatim>\<open>compress\<close> returns the array of length two with \<open>a\<close> at position 0
  and \<open>b\<close> at position 1. So \<^verbatim>\<open>compress\<close> fails only with the error of \<^verbatim>\<open>errorCheck\<close>
  or, after a passed \<^verbatim>\<open>errorCheck\<close>, with the error of an encoder; for encoders that
  return it fails exactly when \<^verbatim>\<open>errorCheck\<close> fails.
\<close>

theorem compress_outcomes:
  "(errorCheck ext stream = Inl e \<longrightarrow> compress ext stream = Inl e)
   \<and> (errorCheck ext stream = Inr ()
        \<and> MarkContentUtils_compress ext (request stream) = Inl e \<longrightarrow>
        compress ext stream = Inl e)
   \<and> (errorCheck ext stream = Inr ()
        \<and> MarkContentUtils_compress ext (request stream) = Inr a
        \<and> StreamUtils_compress ext (content stream) = Inl e \<longrightarrow>
        compress ext stream = Inl e)
   \<and> (errorCheck ext stream = Inr ()
        \<and> MarkContentUtils_compress ext (request stream) = Inr a
        \<and> StreamUtils_compress ext (content stream) = Inr b \<longrightarrow>
        compress ext stream = Inr (JArr [a, b])
        \<and> array_length (JArr [a, b]) = 2
        \<and> element (JArr [a, b]) 0 = a \<and> element (JArr [a, b]) 1 = b)
   \<and> (compress ext stream = Inl e \<longrightarrow>
        errorCheck ext stream = Inl e
        \<or> errorCheck ext stream = Inr ()
          \<and> (MarkContentUtils_compress ext (request stream) = Inl e
               \<or> (\<exists>a'. MarkContentUtils_compress ext (request stream) = Inr a')
                 \<and> StreamUtils_compress ext (content stream) = Inl e))
   \<and> (MarkContentUtils_compress ext (request stream) = Inr a
        \<and> StreamUtils_compress ext (content stream) = Inr b \<longrightarrow>
        (compress ext stream = Inl e \<longleftrightarrow> errorCheck ext stream = Inl e))"
  by (auto simp: compress_def andThen_def element_def array_length_def split: sum.splits)

theorem compress_outcomes_witness:
  "compress sample_ext sample_mark = Inr (JArr [JArr [sample_request], JArr [sample_content]])
   \<and> errorCheck sample_ext \<lparr>request = sample_request, content = JUndefined\<rparr>
       = Inl ERROR_CONTENT_NOT_PROVIDED
   \<and> compress sample_ext \<lparr>request = sample_request, content = JUndefined\<rparr>
       = Inl ERROR_CONTENT_NOT_PROVIDED
   \<and> compress (sample_ext\<lparr>StreamUtils_compress := \<lambda>v. Inl (Thrown ''encoder'')\<rparr>)
        sample_mark
       = Inl (Thrown ''encoder'')"
proof -
  have bad: "errorCheck sample_ext \<lparr>request = sample_request, content = JUndefined\<rparr>
             = Inl ERROR_CONTENT_NOT_PROVIDED"
    by (simp add: errorCheck_def)
  have a: "MarkContentUtils_compress sample_ext (request sample_mark) = Inr (JArr [sample_request])"
    and b: "StreamUtils_compress sample_ext (content sample_mark) = Inr (JArr [sample_content])"
    by (simp_all add: sample_ext_def sample_mark_def)
  have ok: "compress sample_ext sample_mark
            = Inr (JArr [JArr [sample_request], JArr [sample_content]])"
    using a b sample_mark_valid
      compress_outcomes [where ext = sample_ext and stream = sample_mark
        and a = "JArr [sample_request]" and b = "JArr [sample_content]"
        and e = ERROR_CONTENT_NOT_PROVIDED]
    by blast
  have ko: "compress sample_ext \<lparr>request = sample_request, content = JUndefined\<rparr>
            = Inl ERROR_CONTENT_NOT_PROVIDED"
    using bad
      compress_outcomes [where ext = sample_ext
        and stream = "\<lparr>request = sample_request, content = JUndefined\<rparr>"
        and e = ERROR_CONTENT_NOT_PROVIDED and a = JNull and b = JNull]
    by blast
  have v': "errorCheck (sample_ext\<lparr>StreamUtils_compress := \<lambda>v. Inl (Thrown ''encoder'')\<rparr>)
              sample_mark = Inr ()"
    by (simp add: errorCheck_def sample_defs)
  have a': "MarkContentUtils_compress
              (sample_ext\<lparr>StreamUtils_compress := \<lambda>v. Inl (Thrown ''encoder'')\<rparr>)
              (request sample_mark) = Inr (JArr [sample_request])"
    and b': "StreamUtils_compress
              (sample_ext\<lparr>StreamUtils_compress := \<lambda>v. Inl (Thrown ''encoder'')\<rparr>)
              (content sample_mark) = Inl (Thrown ''encoder'')"
    by (simp_all add: sample_ext_def sample_mark_def)
  have enc: "compress (sample_ext\<lparr>StreamUtils_compress := \<lambda>v. Inl (Thrown ''encoder'')\<rparr>)
               sample_mark = Inl (Thrown ''encoder'')"
    using v' a' b'
      compress_outcomes
        [where ext = "sample_ext\<lparr>StreamUtils_compress := \<lambda>v. Inl (Thrown ''encoder'')\<rparr>"
        and stream = sample_mark and a = "JArr [sample_request]" and b = JNull
        and e = "Thrown ''encoder''"]
    by blast
  from ok bad ko enc show ?thesis by blast
qed

text \<open>
  C4, as it is worded, says that \<^verbatim>\<open>compress\<close> fails exactly when \<^verbatim>\<open>errorCheck\<close> fails.
  The encoders run after \<^verbatim>\<open>errorCheck\<close> has passed and what they throw is not caught:
  with a request encoder that throws, \<^verbatim>\<open>errorCheck\<close> passes on the sample Mark and
  \<^verbatim>\<open>compress\<close> fails.
\<close>

theorem compress_encoder_throws_counterexample:
  "errorCheck (sample_ext\<lparr>MarkContentUtils_compress := \<lambda>v. Inl (Thrown ''encoder'')\<rparr>)
     sample_mark = Inr ()
   \<and> compress (sample_ext\<lparr>MarkContentUtils_compress := \<lambda>v. Inl (Thrown ''encoder'')\<rparr>)
       sample_mark = Inl (Thrown ''encoder'')"
  by (simp add: compress_def errorCheck_def sample_defs)

subsection \<open>Decompression\<close>

text \<open>
  C5. \<^verbatim>\<open>decompress\<close> throws \<^verbatim>\<open>ERROR_DECOMPRESSION_ARRAY\<close> on every value that is not an
  array and on every array whose length is not 2. On an array of length 2 it evaluates
  \<^verbatim>\<open>{ request: decode(stream[0]), content: decode(stream[1]) }\<close>, the request decoder
  first: when the decoders return, the result is the object whose \<^verbatim>\<open>request\<close> is what
  the request decoder returns for element 0 and whose \<^verbatim>\<open>content\<close> is what the content
  decoder returns for element 1.
\<close>

theorem decompress_shape:
  "(\<not> Array_isArray stream \<longrightarrow>
      decompress ext stream = Inl (ERROR_DECOMPRESSION_ARRAY ''Cord Mark''))
   \<and> (length xs \<noteq> 2 \<longrightarrow>
        decompress ext (JArr xs) = Inl (ERROR_DECOMPRESSION_ARRAY ''Cord Mark''))
   \<and> (length xs = 2 \<longrightarrow>
        decompress ext (JArr xs)
          = andThen (MarkContentUtils_decompress ext (xs ! 0))
              (\<lambda>r. andThen (StreamUtils_decompress ext (xs ! 1))
                (\<lambda>c. Inr \<lparr>request = r, content = c\<rparr>)))
   \<and> (length xs = 2 \<and> MarkContentUtils_decompress ext (xs ! 0) = Inr r
        \<and> StreamUtils_decompress ext (xs ! 1) = Inr c \<longrightarrow>
        decompress ext (JArr xs) = Inr \<lparr>request = r, content = c\<rparr>)"
  by (simp add: decompress_def array_length_def element_def)

theorem decompress_shape_witness:
  "decompress sample_ext (JObj [(''length'', JNum 2)])
     = Inl (ERROR_DECOMPRESSION_ARRAY ''Cord Mark'')
   \<and> decompress sample_ext (JArr []) = Inl (ERROR_DECOMPRESSION_ARRAY ''Cord Mark'')
   \<and> decompress sample_ext (JArr [JArr [sample_request]])
       = Inl (ERROR_DECOMPRESSION_ARRAY ''Cord Mark'')
   \<and> decompress sample_ext (JArr [JArr [sample_request], JArr [sample_content], JNull])
       = Inl (ERROR_DECOMPRESSION_ARRAY ''Cord Mark'')
   \<and> decompress sample_ext (JArr [JArr [sample_request], JArr [sample_content]])
       = Inr \<lparr>request = sample_request, content = sample_content\<rparr>"
  using
    decompress_shape [where ext = sample_ext and stream = "JObj [(''length'', JNum 2)]"
      and xs = "[]" and r = JNull and c = JNull]
    decompress_shape [where ext = sample_ext and xs = "[JArr [sample_request]]"
      and stream = JNull and r = JNull and c = JNull]
    decompress_shape [where ext = sample_ext
      and xs = "[JArr [sample_request], JArr [sample_content], JNull]" and stream = JNull
      and r = JNull and c = JNull]
    decompress_shape [where ext = sample_ext
      and xs = "[JArr [sample_request], JArr [sample_content]]" and stream = JNull
      and r = sample_request and c = sample_content]
  by (simp add: sample_ext_def)

text \<open>
  C6. The error that \<^verbatim>\<open>decompress\<close> throws on a malformed shape carries the string
  passed to its constructor, \<^verbatim>\<open>'Cord Mark'\<close>, which names the Mark entity: it ends in
  \<^verbatim>\<open>Mark\<close>.
\<close>

theorem decompress_error_names_Mark:
  assumes "\<not> Array_isArray stream \<or> array_length stream \<noteq> 2"
  shows "\<exists>s. decompress ext stream = Inl (ERROR_DECOMPRESSION_ARRAY s)
             \<and> s = ''Cord Mark'' \<and> suffix ''Mark'' s"
proof -
  have "''Cord Mark'' = ''Cord '' @ ''Mark''" by simp
  then have "suffix ''Mark'' ''Cord Mark''" by (rule suffixI)
  moreover have "decompress ext stream = Inl (ERROR_DECOMPRESSION_ARRAY ''Cord Mark'')"
    using assms by (auto simp: decompress_def)
  ultimately show ?thesis by blast
qed

theorem decompress_error_names_Mark_witness:
  "array_length (JArr [JStr ''single'']) \<noteq> 2
   \<and> decompress sample_ext (JArr [JStr ''single''])
       = Inl (ERROR_DECOMPRESSION_ARRAY ''Cord Mark'')
   \<and> suffix ''Mark'' ''Cord Mark''"
proof -
  have n: "array_length (JArr [JStr ''single'']) \<noteq> 2"
    by (simp add: array_length_def)
  then have h: "\<not> Array_isArray (JArr [JStr ''single''])
                \<or> array_length (JArr [JStr ''single'']) \<noteq> 2"
    by (rule disjI2)
  show ?thesis
    using n decompress_error_names_Mark [OF h, of sample_ext] by auto
qed

text \<open>
  C8. \<^verbatim>\<open>decompress\<close> does not validate what it has built. On a two-element array whose
  elements the decoders accept it returns the Mark, whatever the validators and
  \<^verbatim>\<open>verifyData\<close> of the sibling modules would say about that Mark, also when they would
  throw. With sibling modules that have effects, the world after \<^verbatim>\<open>decompress\<close> is the
  world that the two decoders leave: nothing else has run.
\<close>

theorem decompress_skips_errorCheck:
  "(MarkContentUtils_decompress ext x = Inr r \<and> StreamUtils_decompress ext y = Inr c \<longrightarrow>
      decompress ext (JArr [x, y]) = Inr \<lparr>request = r, content = c\<rparr>)
   \<and> (MarkContentUtils_decompress_w X x w = (Inr r, w1)
        \<and> StreamUtils_decompress_w X y w1 = (Inr c, w2) \<longrightarrow>
        decompress_w X (JArr [x, y]) w = (Inr \<lparr>request = r, content = c\<rparr>, w2))"
  by (simp add: decompress_def decompress_w_def andThenE_def returnE_def
      array_length_def element_def)

theorem decompress_skips_errorCheck_witness:
  "decompress sample_ext (JArr [JArr [JNum 1], JArr [JNull]])
     = Inr \<lparr>request = JNum 1, content = JNull\<rparr>
   \<and> errorCheck sample_ext \<lparr>request = JNum 1, content = JNull\<rparr>
       = Inl ERROR_CONTENT_NOT_PROVIDED
   \<and> decompress_w counting_ext (JArr [JArr [sample_request], JArr [sample_content]]) 0
       = (Inr sample_mark, 2)
   \<and> errorCheck_w counting_ext sample_mark 0 = (Inr (), 3)"
proof -
  have bad: "errorCheck sample_ext \<lparr>request = JNum 1, content = JNull\<rparr>
             = Inl ERROR_CONTENT_NOT_PROVIDED"
    by (simp add: errorCheck_def)
  have d: "MarkContentUtils_decompress sample_ext (JArr [JNum 1]) = Inr (JNum 1)
           \<and> StreamUtils_decompress sample_ext (JArr [JNull]) = Inr JNull"
    by (simp add: sample_ext_def)
  have dw: "MarkContentUtils_decompress_w counting_ext (JArr [sample_request]) 0
              = (Inr sample_request, 1)
            \<and> StreamUtils_decompress_w counting_ext (JArr [sample_content]) 1
              = (Inr sample_content, 2)"
    by (simp add: counting_ext_def counted_def sample_ext_def)
  show ?thesis
    using bad d dw errorCheck_w_counting
      decompress_skips_errorCheck [where ext = sample_ext and x = "JArr [JNum 1]"
        and y = "JArr [JNull]" and r = "JNum 1" and c = JNull
        and X = counting_ext and w = 0 and ?w1.0 = 0 and ?w2.0 = 0]
      decompress_skips_errorCheck [where ext = sample_ext and x = "JArr [sample_request]"
        and y = "JArr [sample_content]" and r = sample_request and c = sample_content
        and X = counting_ext and w = 0 and ?w1.0 = 1 and ?w2.0 = 2]
    by (simp add: sample_mark_def)
qed

subsection \<open>Schema check\<close>




subsection \<open>Truthiness\<close>

text \<open>
  C10, as the code has it. The presence tests of \<^verbatim>\<open>errorCheck\<close> are truthiness tests:
  \<^verbatim>\<open>undefined\<close>, \<^verbatim>\<open>null\<close>, \<^verbatim>\<open>false\<close>, \<^verbatim>\<open>0\<close>, \<^verbatim>\<open>NaN\<close> and the empty string are
  the falsy values, and each is treated as an absent field. A falsy \<^verbatim>\<open>content\<close> gives
  \<^verbatim>\<open>ERROR_CONTENT_NOT_PROVIDED\<close>. A truthy \<^verbatim>\<open>content\<close> that the content-stream validator
  accepts, together with a falsy \<^verbatim>\<open>request\<close>, gives \<^verbatim>\<open>ERROR_MC_NOT_PROVIDED\<close>.
\<close>

theorem errorCheck_truthiness:
  "(\<not> truthy v \<longleftrightarrow> v \<in> set [JUndefined, JNull, JBool False, JNum 0, JNaN, JStr ''''])
   \<and> (\<not> truthy (content input) \<longrightarrow> errorCheck ext input = Inl ERROR_CONTENT_NOT_PROVIDED)
   \<and> (truthy (content input) \<and> StreamUtils_errorCheck ext (content input) = Inr ()
        \<and> \<not> truthy (request input) \<longrightarrow>
        errorCheck ext input = Inl ERROR_MC_NOT_PROVIDED)"
  by (cases v) (auto simp: errorCheck_def)

theorem errorCheck_truthiness_witness:
  "errorCheck sample_ext \<lparr>request = sample_request, content = JNum 0\<rparr>
     = Inl ERROR_CONTENT_NOT_PROVIDED
   \<and> errorCheck sample_ext \<lparr>request = sample_request, content = JStr ''''\<rparr>
       = Inl ERROR_CONTENT_NOT_PROVIDED
   \<and> errorCheck sample_ext \<lparr>request = JBool False, content = sample_content\<rparr>
       = Inl ERROR_MC_NOT_PROVIDED
   \<and> errorCheck sample_ext \<lparr>request = JNaN, content = sample_content\<rparr>
       = Inl ERROR_MC_NOT_PROVIDED"
  using
    errorCheck_truthiness [where ext = sample_ext and v = JNull
      and input = "\<lparr>request = sample_request, content = JNum 0\<rparr>"]
    errorCheck_truthiness [where ext = sample_ext and v = JNull
      and input = "\<lparr>request = sample_request, content = JStr ''''\<rparr>"]
    errorCheck_truthiness [where ext = sample_ext and v = JNull
      and input = "\<lparr>request = JBool False, content = sample_content\<rparr>"]
    errorCheck_truthiness [where ext = sample_ext and v = JNull
      and input = "\<lparr>request = JNaN, content = sample_content\<rparr>"]
  by (simp add: sample_ext_def sample_content_def)

text \<open>
  C10, as it is worded, says that every Mark with a truthy \<^verbatim>\<open>content\<close> and a falsy
  \<^verbatim>\<open>request\<close> fails with \<^verbatim>\<open>ERROR_MC_NOT_PROVIDED\<close>. The content-stream validator runs
  before \<^verbatim>\<open>request\<close> is looked at: on the truthy content \<^verbatim>\<open>1\<close>, which the sample
  validator rejects, the error is the validator's.
\<close>

theorem errorCheck_truthy_content_counterexample:
  "truthy (content \<lparr>request = JNull, content = JNum 1\<rparr>)
   \<and> \<not> truthy (request \<lparr>request = JNull, content = JNum 1\<rparr>)
   \<and> errorCheck sample_ext \<lparr>request = JNull, content = JNum 1\<rparr> = Inl (Thrown ''Stream'')
   \<and> errorCheck sample_ext \<lparr>request = JNull, content = JNum 1\<rparr> \<noteq> Inl ERROR_MC_NOT_PROVIDED"
  by (simp add: errorCheck_def sample_ext_def)

end
